theory Spec2Isabelle
  imports Complex_Main
begin

section \<open>The document model of \<^verbatim>\<open>src/document.cpp\<close>\<close>

text \<open>
  \<^verbatim>\<open>QMuPDF::Document\<close> wraps the MuPDF engine. The engine is a black box: every
  function of it that the source calls is a field of the record \<open>engine\<close>, so a theorem
  that quantifies over \<open>eng\<close> holds whatever the engine answers. Handles are opaque: the
  types \<open>'doc\<close>, \<open>'strm\<close> and \<open>'obj\<close> stand for what a \<^verbatim>\<open>fz_document *\<close>, a
  \<^verbatim>\<open>fz_stream *\<close> and a \<^verbatim>\<open>pdf_obj *\<close> point to, and a pointer that may be null is
  an \<open>option\<close> (\<open>None\<close> is \<^verbatim>\<open>nullptr\<close>). The context \<^verbatim>\<open>ctx\<close> is created once in the
  constructor and is passed unchanged to every call, so it is left implicit.

  Engine functions are total here. Outside \<^verbatim>\<open>fz_try\<close> the source calls them as if
  they returned normally, and so does the model; the one call inside \<^verbatim>\<open>fz_try\<close>,
  \<^verbatim>\<open>fz_open_document_with_stream\<close>, either throws or returns a (possibly null) handle.
  What the engine keeps behind a handle is its own: the source sees an engine call only
  through the value returned, and the model takes that value as a function of the
  arguments.
\<close>

subsection \<open>Types of the source\<close>

text \<open>The enum \<^verbatim>\<open>Document::PageMode\<close>, with the six enumerators the source assigns.\<close>

datatype PageMode = UseNone | UseOutlines | UseThumbs | FullScreen | UseOC | UseAttachments

text \<open>
  A \<^verbatim>\<open>QString\<close> is represented by the UTF-8 bytes it holds; \<^verbatim>\<open>QString()\<close> and the empty
  string are both \<open>[]\<close> (they compare equal in Qt).
\<close>

type_synonym QString = string

definition QString_fromUtf8 :: "string \<Rightarrow> QString" where
  "QString_fromUtf8 bytes = bytes"

text \<open>
  The engine's \<^verbatim>\<open>fz_outline\<close> node: a title and a URI that may be null, a pointer
  \<^verbatim>\<open>down\<close> to the first child and a pointer \<^verbatim>\<open>next\<close> to the next sibling (the
  selector \<open>nxt\<close>, since \<open>next\<close> is a keyword of the proof language).
\<close>

datatype fz_outline =
  fz_outline (title: "string option") (uri: "string option")
             (down: "fz_outline option") (nxt: "fz_outline option")

text \<open>
  The outcome of the engine call made inside \<^verbatim>\<open>fz_try\<close>. In the record of the engine
  below, \<^verbatim>\<open>fz_lookup_metadata\<close> takes the handle, the key and the size of the buffer and
  gives the \<^verbatim>\<open>int\<close> it returns together with the string it leaves in the buffer.
\<close>

datatype 'doc fz_try = fz_throws | fz_returns "'doc option"

record ('doc, 'strm, 'obj) engine =
  fz_open_file :: "string \<Rightarrow> 'strm option"
  fz_open_document_with_stream :: "'strm option \<Rightarrow> 'doc fz_try"
  fz_needs_password :: "'doc option \<Rightarrow> bool"
  fz_authenticate_password :: "'doc option \<Rightarrow> string \<Rightarrow> bool"
  fz_count_pages :: "'doc option \<Rightarrow> int"
  fz_load_outline :: "'doc option \<Rightarrow> fz_outline option"
  fz_lookup_metadata :: "'doc option \<Rightarrow> string \<Rightarrow> nat \<Rightarrow> int \<times> string"
  pdf_trailer :: "'doc option \<Rightarrow> 'obj option"
  pdf_dict_gets :: "'obj option \<Rightarrow> string \<Rightarrow> 'obj option"
  pdf_dict_len :: "'obj option \<Rightarrow> int"
  pdf_dict_get_key :: "'obj option \<Rightarrow> int \<Rightarrow> 'obj option"
  pdf_is_name :: "'obj option \<Rightarrow> bool"
  pdf_to_name :: "'obj option \<Rightarrow> string"
  pdf_resolve_indirect :: "'obj option \<Rightarrow> 'obj option"
  pdf_is_string :: "'obj option \<Rightarrow> bool"
  pdf_new_utf8_from_pdf_string_obj :: "'obj option \<Rightarrow> string option"

text \<open>
  \<^verbatim>\<open>struct Document::Data\<close> (lines 26-39), without \<^verbatim>\<open>ctx\<close>. The page count is a C
  \<^verbatim>\<open>int\<close> that the source stores and returns and never computes with.
\<close>

record ('doc, 'strm, 'obj) Data =
  mdoc :: "'doc option"
  stream :: "'strm option"
  pageCount :: int
  info :: "'obj option"
  pageMode :: PageMode
  locked :: bool

text \<open>
  The state of the process that the source reads and writes besides its own fields: the
  \<^verbatim>\<open>LC_NUMERIC\<close> locale, the locales the C library can install besides \<^verbatim>\<open>"C"\<close>, and
  the messages written through \<^verbatim>\<open>qWarning()\<close>.
\<close>

record process =
  LC_NUMERIC :: string
  installed :: "string list"
  qWarnings :: "string list"

subsection \<open>The C library's \<^verbatim>\<open>setlocale\<close>\<close>

text \<open>
  \<^verbatim>\<open>setlocale(LC_NUMERIC, name)\<close> with a non-null \<open>name\<close> (ISO C 7.11.1.1): if the
  selection can be honoured the locale is changed and the call returns the string
  associated with the category for the \<^emph>\<open>new\<close> locale; otherwise it returns a null
  pointer and changes nothing. The \<^verbatim>\<open>"C"\<close> locale can always be selected.
\<close>

definition setlocale :: "string \<Rightarrow> process \<Rightarrow> string option \<times> process" where
  "setlocale name p =
     (if name = ''C'' \<or> name \<in> set (installed p)
      then (Some name, p\<lparr>LC_NUMERIC := name\<rparr>)
      else (None, p))"

definition qWarning :: "string \<Rightarrow> process \<Rightarrow> process" where
  "qWarning msg p = p\<lparr>qWarnings := qWarnings p @ [msg]\<rparr>"

subsection \<open>\<^verbatim>\<open>Document::Data\<close>\<close>

text \<open>The constructor \<^verbatim>\<open>Data()\<close> (lines 27-30).\<close>

definition Data_init :: "('doc, 'strm, 'obj) Data" where
  "Data_init =
     \<lparr>mdoc = None, stream = None, pageCount = 0, info = None,
      pageMode = UseNone, locked = False\<rparr>"

text \<open>\<^verbatim>\<open>Data::dict\<close> (lines 44-47).\<close>

definition Data_dict ::
  "('doc, 'strm, 'obj) engine \<Rightarrow> ('doc, 'strm, 'obj) Data \<Rightarrow> string \<Rightarrow> 'obj option" where
  "Data_dict eng s key = pdf_dict_gets eng (pdf_trailer eng (mdoc s)) key"

text \<open>\<^verbatim>\<open>Data::loadInfoDict\<close> (lines 48-53).\<close>

definition Data_loadInfoDict ::
  "('doc, 'strm, 'obj) engine \<Rightarrow> ('doc, 'strm, 'obj) Data \<Rightarrow> ('doc, 'strm, 'obj) Data" where
  "Data_loadInfoDict eng s =
     (if info s = None then s\<lparr>info := Data_dict eng s ''Info''\<rparr> else s)"

text \<open>
  \<^verbatim>\<open>Data::load\<close> (lines 54-84): the returned flag and the updated fields. The chain of
  \<^verbatim>\<open>strcmp\<close> tests is kept in the order of the source.
\<close>

definition Data_load ::
  "('doc, 'strm, 'obj) engine \<Rightarrow> ('doc, 'strm, 'obj) Data \<Rightarrow> bool \<times> ('doc, 'strm, 'obj) Data" where
  "Data_load eng s =
     (let root = Data_dict eng s ''Root'' in
      if root = None then (False, s)
      else
        let s1 = s\<lparr>pageCount := fz_count_pages eng (mdoc s)\<rparr>;
            obj = pdf_dict_gets eng root ''PageMode''
        in
          if obj \<noteq> None \<and> pdf_is_name eng obj then
            let mode = pdf_to_name eng obj in
              if mode = ''UseNone'' then (True, s1\<lparr>pageMode := UseNone\<rparr>)
              else if mode = ''UseOutlines'' then (True, s1\<lparr>pageMode := UseOutlines\<rparr>)
              else if mode = ''UseThumbs'' then (True, s1\<lparr>pageMode := UseThumbs\<rparr>)
              else if mode = ''FullScreen'' then (True, s1\<lparr>pageMode := FullScreen\<rparr>)
              else if mode = ''UseOC'' then (True, s1\<lparr>pageMode := UseOC\<rparr>)
              else if mode = ''UseAttachments'' then (True, s1\<lparr>pageMode := UseAttachments\<rparr>)
              else (True, s1)
          else (True, s1))"

subsection \<open>\<^verbatim>\<open>Document\<close>: open, close, unlock\<close>

text \<open>
  \<^verbatim>\<open>Document::load\<close> (lines 108-144). \<^verbatim>\<open>QFile::encodeName\<close> turns the file name into
  the bytes handed to the engine; the model's \<open>fileName\<close> is that byte string. Every
  \<^verbatim>\<open>return\<close> of the source is one result below, in the order of the source:
  the stream did not open (line 114); the engine threw (lines 121-125), which leaves
  through \<^verbatim>\<open>return false\<close> inside \<^verbatim>\<open>fz_catch\<close>; the engine returned null (line 132);
  the load step failed (line 139); success (line 143).
\<close>

definition Document_load ::
  "('doc, 'strm, 'obj) engine \<Rightarrow> string \<Rightarrow> process \<Rightarrow> ('doc, 'strm, 'obj) Data
     \<Rightarrow> bool \<times> process \<times> ('doc, 'strm, 'obj) Data" where
  "Document_load eng fileName p s =
     (let s1 = s\<lparr>stream := fz_open_file eng fileName\<rparr> in
      if stream s1 = None then (False, p, s1)
      else
        let (oldlocale, p1) = setlocale ''C'' p in
          case fz_open_document_with_stream eng (stream s1) of
            fz_throws \<Rightarrow>
              (False, qWarning ''Error when trying to load document'' p1, s1\<lparr>mdoc := None\<rparr>)
          | fz_returns r \<Rightarrow>
              let s2 = s1\<lparr>mdoc := r\<rparr>;
                  p2 = (case oldlocale of None \<Rightarrow> p1 | Some l \<Rightarrow> snd (setlocale l p1))
              in
                if mdoc s2 = None then (False, p2, s2)
                else
                  let s3 = s2\<lparr>locked := fz_needs_password eng (mdoc s2)\<rparr> in
                    if \<not> locked s3 then
                      (case Data_load eng s3 of
                         (ok, s4) \<Rightarrow> if \<not> ok then (False, p2, s4) else (True, p2, s4))
                    else (True, p2, s3))"

text \<open>\<^verbatim>\<open>Document::close\<close> (lines 146-160).\<close>

definition Document_close :: "('doc, 'strm, 'obj) Data \<Rightarrow> ('doc, 'strm, 'obj) Data" where
  "Document_close s =
     (if mdoc s = None then s
      else s\<lparr>mdoc := None, stream := None, pageCount := 0, info := None,
             pageMode := UseNone, locked := False\<rparr>)"

text \<open>\<^verbatim>\<open>Document::isLocked\<close> (lines 162-165) and \<^verbatim>\<open>Document::unlock\<close> (lines 167-186).\<close>

definition Document_isLocked :: "('doc, 'strm, 'obj) Data \<Rightarrow> bool" where
  "Document_isLocked s = locked s"

definition Document_unlock ::
  "('doc, 'strm, 'obj) engine \<Rightarrow> string \<Rightarrow> ('doc, 'strm, 'obj) Data
     \<Rightarrow> bool \<times> ('doc, 'strm, 'obj) Data" where
  "Document_unlock eng password s =
     (if \<not> locked s then (False, s)
      else if \<not> fz_authenticate_password eng (mdoc s) password then (False, s)
      else
        let s1 = s\<lparr>locked := False\<rparr> in
          case Data_load eng s1 of
            (ok, s2) \<Rightarrow> if \<not> ok then (False, s2) else (True, s2))"

text \<open>\<^verbatim>\<open>Document::pageCount\<close> (lines 188-191) and \<^verbatim>\<open>Document::pageMode\<close> (lines 302-305).\<close>

definition Document_pageCount :: "('doc, 'strm, 'obj) Data \<Rightarrow> int" where
  "Document_pageCount s = pageCount s"

definition Document_pageMode :: "('doc, 'strm, 'obj) Data \<Rightarrow> PageMode" where
  "Document_pageMode s = pageMode s"

subsection \<open>\<^verbatim>\<open>double\<close> and \<^verbatim>\<open>float\<close>\<close>

text \<open>
  A \<^verbatim>\<open>double\<close> or \<^verbatim>\<open>float\<close> value is the rational number it denotes, and an
  arithmetic operation is the exact operation followed by IEEE 754 rounding to nearest,
  ties to even, to 53 or 24 significant bits. \<open>round_to\<close> rounds with an unbounded
  exponent; that is the machine's rounding wherever \<^verbatim>\<open>pdfVersion\<close> rounds, because the
  operands come from two \<^verbatim>\<open>int\<close>s, so that no result overflows and no non-zero result
  is smaller than a normal number.
\<close>

definition round_half_even :: "rat \<Rightarrow> int" where
  "round_half_even q =
     (let f = \<lfloor>q\<rfloor>; r = q - of_int f
      in if r < 1 / 2 then f else if 1 / 2 < r then f + 1 else if even f then f else f + 1)"

text \<open>The binary exponent of \<open>x\<close>: how often \<open>x \<ge> 1\<close> halves, or \<open>x < 1\<close> doubles, into \<open>[1, 2)\<close>.\<close>

function binade_up :: "rat \<Rightarrow> nat" where
  "binade_up x = (if 2 \<le> x then Suc (binade_up (x / 2)) else 0)"
  by pat_completeness auto
termination
proof (relation "measure (\<lambda>x. nat \<lfloor>x\<rfloor>)")
  fix x :: rat assume x: "2 \<le> x"
  have "of_int \<lfloor>x / 2\<rfloor> \<le> x / 2"
    by (rule of_int_floor_le)
  with x have "of_int \<lfloor>x / 2\<rfloor> + 1 \<le> x"
    by simp
  then have "\<lfloor>x / 2\<rfloor> + 1 \<le> \<lfloor>x\<rfloor>"
    by (simp add: le_floor_iff)
  moreover from x have "2 \<le> \<lfloor>x\<rfloor>"
    by (simp add: le_floor_iff)
  ultimately show "(x / 2, x) \<in> measure (\<lambda>x. nat \<lfloor>x\<rfloor>)"
    by simp
qed simp

function binade_down :: "rat \<Rightarrow> nat" where
  "binade_down x = (if 0 < x \<and> x < 1 then Suc (binade_down (2 * x)) else 0)"
  by pat_completeness auto
termination
proof (relation "measure (\<lambda>x. nat \<lceil>1 / x\<rceil>)")
  fix x :: rat assume x: "0 < x \<and> x < 1"
  define y where "y = 1 / x"
  from x have y: "1 < y"
    by (simp add: y_def)
  have "\<lceil>y / 2\<rceil> < \<lceil>y\<rceil>"
  proof (cases "y < 2")
    case True
    then have "\<lceil>y / 2\<rceil> \<le> 1"
      by (simp add: ceiling_le_iff)
    moreover from y have "1 < \<lceil>y\<rceil>"
      by (simp add: less_ceiling_iff)
    ultimately show ?thesis
      by (rule le_less_trans)
  next
    case False
    have "of_int \<lceil>y / 2\<rceil> < y / 2 + 1"
      by (rule ceiling_correct [THEN conjunct1, THEN diff_less_eq [THEN iffD1]])
    with False have "of_int \<lceil>y / 2\<rceil> < y"
      by simp
    then show ?thesis
      by (simp add: less_ceiling_iff)
  qed
  moreover from y have "0 < \<lceil>y\<rceil>"
    by (simp add: less_ceiling_iff)
  ultimately have "nat \<lceil>y / 2\<rceil> < nat \<lceil>y\<rceil>"
    by simp
  moreover have "1 / (2 * x) = y / 2"
    by (simp add: y_def)
  ultimately have "nat \<lceil>1 / (2 * x)\<rceil> < nat \<lceil>1 / x\<rceil>"
    by (simp only: y_def)
  then show "(2 * x, x) \<in> measure (\<lambda>x. nat \<lceil>1 / x\<rceil>)"
    by (simp only: in_measure)
qed simp

declare binade_up.simps [simp del] binade_down.simps [simp del]

text \<open>The unit in the last place of a non-zero \<open>x\<close> at \<open>p\<close> significant bits.\<close>

definition ulp :: "nat \<Rightarrow> rat \<Rightarrow> rat" where
  "ulp p x =
     (if 1 \<le> \<bar>x\<bar> then 2 ^ binade_up \<bar>x\<bar> / 2 ^ (p - 1)
      else 1 / (2 ^ binade_down \<bar>x\<bar> * 2 ^ (p - 1)))"

definition round_to :: "nat \<Rightarrow> rat \<Rightarrow> rat" where
  "round_to p x = (if x = 0 then 0 else of_int (round_half_even (x / ulp p x)) * ulp p x)"

definition binary64 :: "rat \<Rightarrow> rat" where
  "binary64 = round_to 53"

definition binary32 :: "rat \<Rightarrow> rat" where
  "binary32 = round_to 24"

subsection \<open>\<^verbatim>\<open>Document\<close>: the PDF version\<close>

text \<open>The key \<^verbatim>\<open>FZ_META_FORMAT\<close> of the engine's header.\<close>

definition FZ_META_FORMAT :: string where
  "FZ_META_FORMAT = ''format''"

text \<open>
  \<^verbatim>\<open>Document::pdfVersion\<close> (lines 283-300). The C library's
  \<^verbatim>\<open>sscanf(buf, "PDF %d.%d", &major, &minor)\<close> is the parameter \<open>sscanf_PDF\<close>: from the
  buffer to the number of fields converted and the two \<^verbatim>\<open>int\<close>s stored. In
  \<^verbatim>\<open>float(major + minor / 10.0)\<close> the two \<^verbatim>\<open>int\<close>s convert to \<^verbatim>\<open>double\<close> exactly, the
  division and the sum are \<^verbatim>\<open>double\<close> operations and the cast rounds to \<^verbatim>\<open>float\<close>.
\<close>

definition Document_pdfVersion ::
  "('doc, 'strm, 'obj) engine \<Rightarrow> (string \<Rightarrow> int \<times> int \<times> int) \<Rightarrow> ('doc, 'strm, 'obj) Data
     \<Rightarrow> rat" where
  "Document_pdfVersion eng sscanf_PDF s =
     (if mdoc s = None then 0
      else
        case fz_lookup_metadata eng (mdoc s) FZ_META_FORMAT 64 of
          (found, buf) \<Rightarrow>
            if found \<noteq> - 1 then
              (case sscanf_PDF buf of
                 (converted, major, minor) \<Rightarrow>
                   if converted = 2
                   then binary32 (binary64 (of_int major + binary64 (of_int minor / 10)))
                   else 0)
            else 0)"

subsection \<open>\<^verbatim>\<open>Document\<close>: the Info dictionary\<close>



text \<open>\<^verbatim>\<open>Document::infoKey\<close> (lines 225-257).\<close>

definition Document_infoKey ::
  "('doc, 'strm, 'obj) engine \<Rightarrow> string \<Rightarrow> process \<Rightarrow> ('doc, 'strm, 'obj) Data
     \<Rightarrow> QString \<times> process \<times> ('doc, 'strm, 'obj) Data" where
  "Document_infoKey eng key p s =
     (if mdoc s = None then ([], p, s)
      else
        let s1 = Data_loadInfoDict eng s in
          if info s1 = None then ([], p, s1)
          else
            let obj = pdf_dict_gets eng (info s1) key in
              if obj \<noteq> None then
                let obj' = pdf_resolve_indirect eng obj in
                  if \<not> pdf_is_string eng obj' then
                    ([], qWarning ''info object not a string!'' p, s1)
                  else
                    (case pdf_new_utf8_from_pdf_string_obj eng obj' of
                       Some val \<Rightarrow> (QString_fromUtf8 val, p, s1)
                     | None \<Rightarrow> ([], p, s1))
              else ([], p, s1))"

subsection \<open>\<^verbatim>\<open>Document\<close>: the outline\<close>

text \<open>
  The class \<^verbatim>\<open>Outline\<close>: its objects live on the C++ heap and the tree is built by
  writing through pointers, so the model has an explicit store. A store is the list of
  the \<^verbatim>\<open>Outline\<close> objects allocated so far, an address is an index into it, and
  \<^verbatim>\<open>new\<close> puts the object at the end.
\<close>

record Outline =
  m_title :: QString
  m_link :: string
  m_children :: "nat list"

type_synonym store = "Outline list"

text \<open>The constructor \<^verbatim>\<open>Outline::Outline(const fz_outline *)\<close> (lines 309-318).\<close>

definition Outline_of :: "fz_outline \<Rightarrow> Outline" where
  "Outline_of out =
     \<lparr>m_title = (case title out of None \<Rightarrow> [] | Some t \<Rightarrow> QString_fromUtf8 t),
      m_link = (case uri out of None \<Rightarrow> [] | Some u \<Rightarrow> u),
      m_children = []\<rparr>"

text \<open>
  Modelled from the spec: the default constructor \<^verbatim>\<open>Outline()\<close> is in
  \<^verbatim>\<open>document.hpp\<close>, which is not among the sources. The spec: the root sentinel node
  has no title and no link and exists only to hold the top-level children.
\<close>

definition Outline_default :: Outline where
  "Outline_default = \<lparr>m_title = [], m_link = [], m_children = []\<rparr>"

text \<open>
  Modelled from the spec: \<^verbatim>\<open>Outline::appendChild\<close> is in \<^verbatim>\<open>document.hpp\<close>, which is
  not among the sources. The spec: the child is appended to the parent's children.
  The source calls it on a pointer it has just obtained from \<^verbatim>\<open>new\<close>.
\<close>

definition Outline_appendChild :: "nat \<Rightarrow> nat \<Rightarrow> store \<Rightarrow> store" where
  "Outline_appendChild item child h =
     h[item := (h ! item)\<lparr>m_children := m_children (h ! item) @ [child]\<rparr>]"

text \<open>
  \<^verbatim>\<open>Data::convertOutline\<close> (lines 85-92). The \<^verbatim>\<open>for\<close> loop over \<^verbatim>\<open>out->next\<close> is
  the outer recursive call, the call on \<^verbatim>\<open>out->down\<close> the inner one. As in the source
  the child is appended to its parent first and filled afterwards, through its address.
\<close>

function Data_convertOutline :: "fz_outline option \<Rightarrow> nat \<Rightarrow> store \<Rightarrow> store" where
  "Data_convertOutline None item h = h"
| "Data_convertOutline (Some out) item h =
     (let child = length h;
          h1 = h @ [Outline_of out];
          h2 = Outline_appendChild item child h1;
          h3 = Data_convertOutline (down out) child h2
      in Data_convertOutline (nxt out) item h3)"
  by pat_completeness auto
termination
proof (relation "measure (\<lambda>(out, item, h). size_option size out)")
  fix out :: fz_outline
  have "size_option size (down out) < Suc (size out)"
    and "size_option size (nxt out) < Suc (size out)"
    by (cases out; simp)+
  then show "\<And>item h x xa xb.
      ((down out, x, xb), Some out, item, h)
        \<in> measure (\<lambda>(out, item, h). size_option size out)"
    and "\<And>item h x xa xb xc.
      ((nxt out, item, xc), Some out, item, h)
        \<in> measure (\<lambda>(out, item, h). size_option size out)"
    by simp_all
qed simp

text \<open>
  \<^verbatim>\<open>Document::outline\<close> (lines 259-271): the address of the new root, or null, and
  the store. \<^verbatim>\<open>fz_drop_outline\<close> releases the engine's own structure and writes
  nothing the model holds.
\<close>

definition Document_outline ::
  "('doc, 'strm, 'obj) engine \<Rightarrow> ('doc, 'strm, 'obj) Data \<Rightarrow> store \<Rightarrow> nat option \<times> store" where
  "Document_outline eng s h =
     (case fz_load_outline eng (mdoc s) of
        None \<Rightarrow> (None, h)
      | Some out \<Rightarrow>
          let item = length h;
              h1 = h @ [Outline_default];
              h2 = Data_convertOutline (Some out) item h1
          in (Some item, h2))"

section \<open>What the specification says of the outline\<close>

text \<open>
  The specification's \<open>OutlineNode\<close>: a title, a link and an ordered sequence of owned
  children.
\<close>

datatype OutlineNode =
  OutlineNode (node_title: QString) (node_link: string) (node_children: "OutlineNode list")

text \<open>
  The specification's mirror of an engine sibling list, in its words: each sibling, in
  list order, becomes a node with the sibling's optional title and optional link, whose
  children mirror the sibling's nested list; then comes the next sibling.
\<close>

function spec_mirror :: "fz_outline option \<Rightarrow> OutlineNode list" where
  "spec_mirror None = []"
| "spec_mirror (Some out) =
     OutlineNode (case title out of None \<Rightarrow> [] | Some t \<Rightarrow> QString_fromUtf8 t)
                 (case uri out of None \<Rightarrow> [] | Some u \<Rightarrow> u)
                 (spec_mirror (down out))
       # spec_mirror (nxt out)"
  by pat_completeness auto
termination
proof (relation "measure (size_option size)")
  fix out :: fz_outline
  have "size_option size (down out) < Suc (size out)"
    and "size_option size (nxt out) < Suc (size out)"
    by (cases out; simp)+
  then show "(down out, Some out) \<in> measure (size_option size)"
    and "(nxt out, Some out) \<in> measure (size_option size)"
    by simp_all
qed simp

text \<open>
  Reading a tree back from the store: \<open>owned_tree lo h p t\<close> says that the object at
  address \<open>p\<close> of the store \<open>h\<close> is the root of the tree \<open>t\<close>, child by child in order,
  and that every object of the tree lies at an address from \<open>lo\<close> on.
\<close>

inductive owned_tree :: "nat \<Rightarrow> store \<Rightarrow> nat \<Rightarrow> OutlineNode \<Rightarrow> bool" where
  owned_treeI:
    "lo \<le> p \<Longrightarrow> p < length h \<Longrightarrow>
     m_title (h ! p) = node_title t \<Longrightarrow> m_link (h ! p) = node_link t \<Longrightarrow>
     list_all2 (owned_tree lo h) (m_children (h ! p)) (node_children t) \<Longrightarrow>
     owned_tree lo h p t"
monos list_all2_mono

code_pred (modes: i \<Rightarrow> i \<Rightarrow> i \<Rightarrow> i \<Rightarrow> bool) owned_tree .

text \<open>
  The nodes of a tree in depth-first order (a node, then its children's subtrees from
  first to last), each as its title and link; and the same pairs for the objects of a
  store in the order of their addresses, which is the order they were allocated in.
\<close>

fun preorder :: "OutlineNode \<Rightarrow> (QString \<times> string) list" where
  "preorder (OutlineNode t l cs) = (t, l) # concat (map preorder cs)"

definition labels :: "store \<Rightarrow> (QString \<times> string) list" where
  "labels h = map (\<lambda>obj. (m_title obj, m_link obj)) h"

section \<open>What the specification says of the page mode\<close>

text \<open>The six page modes by name: the enum value matching a name.\<close>

definition PageMode_names :: "(string \<times> PageMode) list" where
  "PageMode_names =
     [(''UseNone'', UseNone), (''UseOutlines'', UseOutlines), (''UseThumbs'', UseThumbs),
      (''FullScreen'', FullScreen), (''UseOC'', UseOC), (''UseAttachments'', UseAttachments)]"

text \<open>
  The page mode the trailer encodes, in the specification's words: none if the trailer
  has no \<open>Root\<close>, if \<open>Root\<close> has no \<open>PageMode\<close> entry, if the entry is not a name or if
  the name is not one of the six; otherwise the enum value matching the name.
\<close>

definition spec_pageMode :: "('doc, 'strm, 'obj) engine \<Rightarrow> 'doc option \<Rightarrow> PageMode option" where
  "spec_pageMode eng doc =
     (let root = pdf_dict_gets eng (pdf_trailer eng doc) ''Root'';
          entry = pdf_dict_gets eng root ''PageMode''
      in if root = None then None
         else if entry = None then None
         else if pdf_is_name eng entry then map_of PageMode_names (pdf_to_name eng entry)
         else None)"

section \<open>A caller that retries \<^verbatim>\<open>unlock\<close>\<close>

text \<open>
  One call of \<^verbatim>\<open>Document::unlock\<close> for each password of a list, in order: the flags
  returned and the fields after the last call.
\<close>

fun unlock_attempts ::
  "('doc, 'strm, 'obj) engine \<Rightarrow> string list \<Rightarrow> ('doc, 'strm, 'obj) Data
     \<Rightarrow> bool list \<times> ('doc, 'strm, 'obj) Data" where
  "unlock_attempts eng [] s = ([], s)"
| "unlock_attempts eng (pw # pws) s =
     (case Document_unlock eng pw s of
        (r, s1) \<Rightarrow> (case unlock_attempts eng pws s1 of (rs, s2) \<Rightarrow> (r # rs, s2)))"

section \<open>An engine to run the model on\<close>

text \<open>
  A small engine: PDF objects as a datatype, a document as its trailer, page count,
  outline, password and format string, a file as either a document or bytes the parser
  rejects. It answers a null handle with no password needed, any password accepted, no
  pages, no outline, no object and no metadata.
\<close>

datatype pdf_obj =
  pdf_name string
| pdf_str string
| pdf_int int
| pdf_dict "(string \<times> pdf_obj) list"
| pdf_ref pdf_obj

record pdf_file =
  encrypted :: bool
  password :: string
  trailer :: pdf_obj
  pages :: int
  outlines :: "fz_outline option"
  format :: "string option"

datatype file_bytes = Garbage | Pdf pdf_file

fun resolve :: "pdf_obj option \<Rightarrow> pdf_obj option" where
  "resolve (Some (pdf_ref target)) = Some target"
| "resolve obj = obj"

definition dict_entries :: "pdf_obj option \<Rightarrow> (string \<times> pdf_obj) list" where
  "dict_entries obj = (case resolve obj of Some (pdf_dict kvs) \<Rightarrow> kvs | _ \<Rightarrow> [])"

definition name_of :: "pdf_obj option \<Rightarrow> string option" where
  "name_of obj = (case resolve obj of Some (pdf_name n) \<Rightarrow> Some n | _ \<Rightarrow> None)"

definition str_of :: "pdf_obj option \<Rightarrow> string option" where
  "str_of obj = (case resolve obj of Some (pdf_str v) \<Rightarrow> Some v | _ \<Rightarrow> None)"

definition sample_engine ::
  "(string \<times> file_bytes) list \<Rightarrow> (pdf_file, file_bytes, pdf_obj) engine" where
  "sample_engine files =
     \<lparr>fz_open_file = map_of files,
      fz_open_document_with_stream =
        (\<lambda>st. case st of Some (Pdf f) \<Rightarrow> fz_returns (Some f) | _ \<Rightarrow> fz_throws),
      fz_needs_password = (\<lambda>doc. case doc of None \<Rightarrow> False | Some f \<Rightarrow> encrypted f),
      fz_authenticate_password =
        (\<lambda>doc pw. case doc of None \<Rightarrow> True
                   | Some f \<Rightarrow> if encrypted f then pw = password f else True),
      fz_count_pages = (\<lambda>doc. case doc of None \<Rightarrow> 0 | Some f \<Rightarrow> pages f),
      fz_load_outline = (\<lambda>doc. case doc of None \<Rightarrow> None | Some f \<Rightarrow> outlines f),
      fz_lookup_metadata =
        (\<lambda>doc key size.
           case doc of None \<Rightarrow> (- 1, [])
           | Some f \<Rightarrow>
               (case format f of None \<Rightarrow> (- 1, [])
                | Some v \<Rightarrow>
                    if key = FZ_META_FORMAT
                    then (int (length (take (size - 1) v)), take (size - 1) v)
                    else (- 1, []))),
      pdf_trailer = map_option trailer,
      pdf_dict_gets = (\<lambda>obj key. map_of (dict_entries obj) key),
      pdf_dict_len = (\<lambda>obj. int (length (dict_entries obj))),
      pdf_dict_get_key =
        (\<lambda>obj i. if 0 \<le> i \<and> i < int (length (dict_entries obj))
                  then Some (pdf_name (fst (dict_entries obj ! nat i))) else None),
      pdf_is_name = (\<lambda>obj. name_of obj \<noteq> None),
      pdf_to_name = (\<lambda>obj. case name_of obj of None \<Rightarrow> [] | Some n \<Rightarrow> n),
      pdf_resolve_indirect = resolve,
      pdf_is_string = (\<lambda>obj. str_of obj \<noteq> None),
      pdf_new_utf8_from_pdf_string_obj =
        (\<lambda>obj. case str_of obj of None \<Rightarrow> Some [] | Some v \<Rightarrow> Some v)\<rparr>"

text \<open>
  The files of the examples: an unencrypted document with a page mode, an Info
  dictionary and a two-level outline, whose format string is \<^verbatim>\<open>PDF 1.7\<close>; an encrypted
  document; an encrypted document whose trailer has no \<open>Root\<close> and which has no format
  string; an unencrypted document whose \<open>PageMode\<close> is a name that is no page mode, with
  no Info dictionary and no outline, whose format string has no version number; bytes
  that are no PDF. No other file exists.
\<close>

definition report_info :: pdf_obj where
  "report_info =
     pdf_dict
       [(''Title'', pdf_str ''Report''),
        (''Author'', pdf_ref (pdf_str ''A. Writer'')),
        (''Pages'', pdf_int 3)]"

definition report_toc :: fz_outline where
  "report_toc =
     fz_outline (Some ''Chapter 1'') (Some ''#page=1'')
       (Some (fz_outline (Some ''Section 1.1'') None None None))
       (Some (fz_outline None (Some ''#page=3'') None None))"

definition report_pdf :: pdf_file where
  "report_pdf =
     \<lparr>encrypted = False, password = [],
      trailer = pdf_dict
        [(''Root'', pdf_ref (pdf_dict [(''PageMode'', pdf_name ''UseOutlines'')])),
         (''Info'', report_info)],
      pages = 3,
      outlines = Some report_toc, format = Some ''PDF 1.7''\<rparr>"

definition secret_pdf :: pdf_file where
  "secret_pdf =
     \<lparr>encrypted = True, password = ''sesame'',
      trailer = pdf_dict [(''Root'', pdf_dict [(''PageMode'', pdf_name ''FullScreen'')])],
      pages = 7, outlines = None, format = Some ''PDF 1.4''\<rparr>"

definition noroot_pdf :: pdf_file where
  "noroot_pdf =
     \<lparr>encrypted = True, password = ''sesame'', trailer = pdf_dict [], pages = 2,
      outlines = None, format = None\<rparr>"

definition plain_pdf :: pdf_file where
  "plain_pdf =
     \<lparr>encrypted = False, password = [],
      trailer = pdf_dict [(''Root'', pdf_dict [(''PageMode'', pdf_name ''TwoColumnLeft'')])],
      pages = 1, outlines = None, format = Some ''PDF one''\<rparr>"

definition sample_files :: "(string \<times> file_bytes) list" where
  "sample_files =
     [(''report.pdf'', Pdf report_pdf), (''secret.pdf'', Pdf secret_pdf),
      (''noroot.pdf'', Pdf noroot_pdf), (''plain.pdf'', Pdf plain_pdf),
      (''broken.pdf'', Garbage)]"

definition sample_process :: process where
  "sample_process =
     \<lparr>LC_NUMERIC = ''de_DE.UTF-8'', installed = [''de_DE.UTF-8'', ''en_US.UTF-8''],
      qWarnings = []\<rparr>"

text \<open>
  The documents of the examples: each is a newly constructed \<^verbatim>\<open>Document\<close> on which
  \<^verbatim>\<open>load\<close> has been called once.
\<close>

definition sample_load ::
  "string \<Rightarrow> bool \<times> process \<times> (pdf_file, file_bytes, pdf_obj) Data" where
  "sample_load fileName =
     Document_load (sample_engine sample_files) fileName sample_process Data_init"

definition report_doc :: "(pdf_file, file_bytes, pdf_obj) Data" where
  "report_doc = snd (snd (sample_load ''report.pdf''))"

definition secret_doc :: "(pdf_file, file_bytes, pdf_obj) Data" where
  "secret_doc = snd (snd (sample_load ''secret.pdf''))"

definition noroot_doc :: "(pdf_file, file_bytes, pdf_obj) Data" where
  "noroot_doc = snd (snd (sample_load ''noroot.pdf''))"

definition plain_doc :: "(pdf_file, file_bytes, pdf_obj) Data" where
  "plain_doc = snd (snd (sample_load ''plain.pdf''))"

definition broken_doc :: "(pdf_file, file_bytes, pdf_obj) Data" where
  "broken_doc = snd (snd (sample_load ''broken.pdf''))"

section \<open>The examples, evaluated\<close>

lemmas sample_defs =
  sample_engine_def sample_files_def sample_process_def report_pdf_def secret_pdf_def
  report_info_def report_toc_def noroot_pdf_def plain_pdf_def dict_entries_def name_of_def
  str_of_def

lemmas load_defs =
  sample_load_def Document_load_def Data_load_def Data_dict_def Data_init_def
  setlocale_def qWarning_def

lemma sample_load_report:
  "sample_load ''report.pdf'' =
     (True, sample_process\<lparr>LC_NUMERIC := ''C''\<rparr>,
      \<lparr>mdoc = Some report_pdf, stream = Some (Pdf report_pdf), pageCount = 3, info = None,
       pageMode = UseOutlines, locked = False\<rparr>)"
  by (simp add: load_defs sample_defs)

lemma sample_load_secret:
  "sample_load ''secret.pdf'' =
     (True, sample_process\<lparr>LC_NUMERIC := ''C''\<rparr>,
      \<lparr>mdoc = Some secret_pdf, stream = Some (Pdf secret_pdf), pageCount = 0, info = None,
       pageMode = UseNone, locked = True\<rparr>)"
  by (simp add: load_defs sample_defs)

lemma sample_load_noroot:
  "sample_load ''noroot.pdf'' =
     (True, sample_process\<lparr>LC_NUMERIC := ''C''\<rparr>,
      \<lparr>mdoc = Some noroot_pdf, stream = Some (Pdf noroot_pdf), pageCount = 0, info = None,
       pageMode = UseNone, locked = True\<rparr>)"
  by (simp add: load_defs sample_defs)

lemma sample_load_plain:
  "sample_load ''plain.pdf'' =
     (True, sample_process\<lparr>LC_NUMERIC := ''C''\<rparr>,
      \<lparr>mdoc = Some plain_pdf, stream = Some (Pdf plain_pdf), pageCount = 1, info = None,
       pageMode = UseNone, locked = False\<rparr>)"
  by (simp add: load_defs sample_defs)

lemma sample_load_broken:
  "sample_load ''broken.pdf'' =
     (False,
      sample_process\<lparr>LC_NUMERIC := ''C'',
                      qWarnings := [''Error when trying to load document'']\<rparr>,
      \<lparr>mdoc = None, stream = Some Garbage, pageCount = 0, info = None,
       pageMode = UseNone, locked = False\<rparr>)"
  by (simp add: load_defs sample_defs)

lemma sample_load_missing:
  "sample_load ''missing.pdf'' = (False, sample_process, Data_init)"
  by (simp add: load_defs sample_defs)

lemmas sample_docs =
  report_doc_def secret_doc_def noroot_doc_def plain_doc_def broken_doc_def
  sample_load_report sample_load_secret sample_load_noroot sample_load_plain
  sample_load_broken

section \<open>Opening: the locale and the stream\<close>

text \<open>
  What \<^verbatim>\<open>Document::load\<close> does when the stream opens and the engine throws on it: the
  \<^verbatim>\<open>return false\<close> inside \<^verbatim>\<open>fz_catch\<close> (line 124) leaves before the second
  \<^verbatim>\<open>setlocale\<close> (lines 127-129), and it neither drops the stream nor clears its handle.
\<close>

lemma load_engine_throws:
  assumes "fz_open_file eng fileName = Some st"
    and "fz_open_document_with_stream eng (Some st) = fz_throws"
  shows "Document_load eng fileName p s =
    (False, qWarning ''Error when trying to load document'' (p\<lparr>LC_NUMERIC := ''C''\<rparr>),
     s\<lparr>stream := Some st, mdoc := None\<rparr>)"
  using assms by (simp add: Document_load_def setlocale_def)

text \<open>When the stream does not open, nothing but the stream handle is written.\<close>

lemma load_no_stream:
  assumes "fz_open_file eng fileName = None"
  shows "Document_load eng fileName p s = (False, p, s\<lparr>stream := None\<rparr>)"
  using assms by (simp add: Document_load_def)

text \<open>
  When the engine returns: the three outcomes, with the fields and the locale of each.
\<close>

lemma load_engine_returns:
  assumes "fz_open_file eng fileName = Some st"
    and "fz_open_document_with_stream eng (Some st) = fz_returns r"
  shows "Document_load eng fileName p s =
    (if r = None then (False, p\<lparr>LC_NUMERIC := ''C''\<rparr>, s\<lparr>stream := Some st, mdoc := None\<rparr>)
     else if fz_needs_password eng r
       then (True, p\<lparr>LC_NUMERIC := ''C''\<rparr>, s\<lparr>stream := Some st, mdoc := r, locked := True\<rparr>)
     else (fst (Data_load eng (s\<lparr>stream := Some st, mdoc := r, locked := False\<rparr>)),
           p\<lparr>LC_NUMERIC := ''C''\<rparr>,
           snd (Data_load eng (s\<lparr>stream := Some st, mdoc := r, locked := False\<rparr>))))"
  using assms
  by (auto simp add: Document_load_def setlocale_def Let_def split: prod.splits)

text \<open>
  On every path past the first \<^verbatim>\<open>setlocale\<close> the locale is \<^verbatim>\<open>"C"\<close> when \<^verbatim>\<open>load\<close>
  returns: \<^verbatim>\<open>oldlocale\<close> holds what \<^verbatim>\<open>setlocale(LC_NUMERIC, "C")\<close> returned, which names
  the locale just installed.
\<close>

lemma load_stream_opened_locale:
  assumes "fz_open_file eng fileName \<noteq> None"
  shows "LC_NUMERIC (fst (snd (Document_load eng fileName p s))) = ''C''"
  using assms
  by (auto simp add: Document_load_def setlocale_def qWarning_def Let_def
      split: fz_try.splits prod.splits)

text \<open>
  Claim C1 (numeric locale restored after \<^verbatim>\<open>Document::load\<close> on every exit path) does
  not hold of the source. \<^verbatim>\<open>broken.pdf\<close> exists and the engine rejects it: \<^verbatim>\<open>load\<close>
  returns false through \<^verbatim>\<open>fz_catch\<close>, the process was in the locale \<^verbatim>\<open>de_DE.UTF-8\<close>
  before the call and is in the locale \<^verbatim>\<open>C\<close> after it.
\<close>

theorem load_failure_leaves_locale_C:
  "fst (sample_load ''broken.pdf'') = False \<and>
   LC_NUMERIC sample_process = ''de_DE.UTF-8'' \<and>
   LC_NUMERIC (fst (snd (sample_load ''broken.pdf''))) = ''C''"
  by (simp add: sample_load_broken) (simp add: sample_process_def)

text \<open>
  Claim C3 (the stream handle is non-null exactly when the document handle is) does not
  hold of the source. After \<^verbatim>\<open>load\<close> of \<^verbatim>\<open>broken.pdf\<close> on a new \<^verbatim>\<open>Document\<close> has
  returned false, the document handle is null and the stream handle is not.
\<close>

theorem load_failure_keeps_stream:
  "fst (sample_load ''broken.pdf'') = False \<and>
   mdoc broken_doc = None \<and> stream broken_doc = Some Garbage"
  by (simp add: sample_docs)

section \<open>Closing\<close>




lemma mdoc_Document_close [simp]: "mdoc (Document_close s) = None"
  by (simp add: Document_close_def)




section \<open>Unlocking\<close>

lemma unlock_not_locked: "\<not> locked s \<Longrightarrow> Document_unlock eng pw s = (False, s)"
  by (simp add: Document_unlock_def)

lemma unlock_rejected:
  "locked s \<Longrightarrow> \<not> fz_authenticate_password eng (mdoc s) pw \<Longrightarrow>
   Document_unlock eng pw s = (False, s)"
  by (simp add: Document_unlock_def)

lemma unlock_attempts_rejected:
  "locked s \<Longrightarrow> \<forall>pw \<in> set pws. \<not> fz_authenticate_password eng (mdoc s) pw \<Longrightarrow>
   unlock_attempts eng pws s = (replicate (length pws) False, s)"
  by (induction pws) (simp_all add: unlock_rejected)

lemma Data_load_no_root:
  "Data_dict eng s ''Root'' = None \<Longrightarrow> Data_load eng s = (False, s)"
  by (simp add: Data_load_def)

lemma Data_dict_locked_update [simp]:
  "Data_dict eng (s\<lparr>locked := b\<rparr>) key = Data_dict eng s key"
  by (simp add: Data_dict_def)

lemma Data_load_locked [simp]: "locked (snd (Data_load eng s)) = locked s"
  by (simp add: Data_load_def Let_def)

text \<open>
  A document that \<^verbatim>\<open>load\<close> leaves locked has the page count it had before the call:
  the load step, the only place that writes the page count, was not run.
\<close>

lemma load_locked_pageCount:
  assumes "Document_load eng fileName p s0 = (ok, p', s)" and "locked s"
  shows "pageCount s = pageCount s0"
proof (cases "fz_open_file eng fileName")
  case None
  with assms show ?thesis
    by (auto simp: load_no_stream)
next
  case (Some st)
  show ?thesis
  proof (cases "fz_open_document_with_stream eng (Some st)")
    case fz_throws
    with Some assms show ?thesis
      by (auto simp: load_engine_throws)
  next
    case (fz_returns r)
    note ret = load_engine_returns [OF Some fz_returns, of p s0]
    let ?s3 = "s0\<lparr>stream := Some st, mdoc := r, locked := False\<rparr>"
    show ?thesis
    proof (cases "r = None \<or> fz_needs_password eng r")
      case True
      with ret assms(1) show ?thesis
        by (auto split: if_splits)
    next
      case False
      with ret assms(1) have "s = snd (Data_load eng ?s3)"
        by (auto split: if_splits)
      then have "locked s = locked ?s3"
        by (simp only: Data_load_locked)
      with assms(2) show ?thesis
        by simp
    qed
  qed
qed

text \<open>
  Claim C5: \<^verbatim>\<open>unlock\<close> on a document that is not locked returns false and changes no
  field; on a locked document a password the engine rejects returns false and changes no
  field, so the document is still locked and its page count is what it was; and any
  number of rejected passwords in a row leaves every field as it was, so that the next
  call of \<^verbatim>\<open>unlock\<close> does what it would have done as the first. The page count that
  is kept is 0 when the locked document was opened by \<^verbatim>\<open>load\<close> from a state of page
  count 0 (a new or a closed \<^verbatim>\<open>Document\<close>).
\<close>

theorem unlock_failure_changes_nothing:
  "(\<not> locked s \<longrightarrow> Document_unlock eng pw s = (False, s)) \<and>
   (locked s \<and> \<not> fz_authenticate_password eng (mdoc s) pw \<longrightarrow>
      Document_unlock eng pw s = (False, s) \<and>
      Document_isLocked (snd (Document_unlock eng pw s)) \<and>
      Document_pageCount (snd (Document_unlock eng pw s)) = pageCount s) \<and>
   (locked s \<and> (\<forall>pw' \<in> set pws. \<not> fz_authenticate_password eng (mdoc s) pw') \<longrightarrow>
      unlock_attempts eng pws s = (replicate (length pws) False, s) \<and>
      Document_unlock eng pw (snd (unlock_attempts eng pws s)) = Document_unlock eng pw s) \<and>
   (Document_load eng fileName p s0 = (True, p', s) \<and> pageCount s0 = 0 \<and> locked s \<and>
    \<not> fz_authenticate_password eng (mdoc s) pw \<longrightarrow>
      Document_pageCount (snd (Document_unlock eng pw s)) = 0)"
proof -
  have "pageCount s = 0"
    if "Document_load eng fileName p s0 = (True, p', s)" and "pageCount s0 = 0" and "locked s"
    using load_locked_pageCount [OF that(1) that(3)] that(2) by simp
  then show ?thesis
    by (simp add: unlock_not_locked unlock_rejected unlock_attempts_rejected
        Document_isLocked_def Document_pageCount_def)
qed

text \<open>
  The statement at the examples: \<^verbatim>\<open>report.pdf\<close> is open and not locked;
  \<^verbatim>\<open>secret.pdf\<close> is locked with page count 0, three wrong passwords are rejected and
  the right one is accepted afterwards.
\<close>

theorem unlock_failure_changes_nothing_witness:
  "\<not> locked report_doc \<and>
   Document_unlock (sample_engine sample_files) ''sesame'' report_doc = (False, report_doc) \<and>
   locked secret_doc \<and> pageCount secret_doc = 0 \<and>
   Document_unlock (sample_engine sample_files) ''guess'' secret_doc = (False, secret_doc) \<and>
   unlock_attempts (sample_engine sample_files) [''a'', ''b'', ''c''] secret_doc
     = ([False, False, False], secret_doc) \<and>
   fst (Document_unlock (sample_engine sample_files) ''sesame''
         (snd (unlock_attempts (sample_engine sample_files) [''a'', ''b'', ''c''] secret_doc))) \<and>
   sample_load ''secret.pdf'' = (True, sample_process\<lparr>LC_NUMERIC := ''C''\<rparr>, secret_doc) \<and>
   Document_pageCount (snd (Document_unlock (sample_engine sample_files) ''guess'' secret_doc))
     = 0"
proof -
  let ?E = "sample_engine sample_files"
  let ?p = "sample_process\<lparr>LC_NUMERIC := ''C''\<rparr>"
  have opened: "Document_load ?E ''secret.pdf'' sample_process Data_init = (True, ?p, secret_doc)"
    using sample_load_secret by (simp add: secret_doc_def) (simp add: sample_load_def)
  have fresh: "pageCount (Data_init :: (pdf_file, file_bytes, pdf_obj) Data) = 0"
    by (simp add: Data_init_def)
  have unlocked: "\<not> locked report_doc"
    by (simp add: sample_docs)
  have locked: "locked secret_doc" "pageCount secret_doc = 0"
    by (simp_all add: sample_docs)
  have rejected: "\<not> fz_authenticate_password ?E (mdoc secret_doc) ''guess''"
    "\<forall>pw' \<in> set [''a'', ''b'', ''c'']. \<not> fz_authenticate_password ?E (mdoc secret_doc) pw'"
    by (simp_all add: sample_docs sample_defs)
  have accepted: "fst (Document_unlock ?E ''sesame'' secret_doc)"
    by (simp add: sample_docs sample_defs Document_unlock_def Data_load_def Data_dict_def)
  from unlocked
    unlock_failure_changes_nothing
      [where s = report_doc and eng = ?E and pw = "''sesame''" and pws = "[]"]
  have "Document_unlock ?E ''sesame'' report_doc = (False, report_doc)"
    by blast
  moreover
  from locked rejected opened fresh
    unlock_failure_changes_nothing
      [where s = secret_doc and eng = ?E and pw = "''guess''" and pws = "[''a'', ''b'', ''c'']"
        and fileName = "''secret.pdf''" and p = sample_process and s0 = Data_init and p' = ?p]
  have "Document_unlock ?E ''guess'' secret_doc = (False, secret_doc)"
    and "unlock_attempts ?E [''a'', ''b'', ''c''] secret_doc
           = (replicate (length [''a'', ''b'', ''c'']) False, secret_doc)"
    and "Document_pageCount (snd (Document_unlock ?E ''guess'' secret_doc)) = 0"
    by blast+
  moreover
  from locked rejected
    unlock_failure_changes_nothing
      [where s = secret_doc and eng = ?E and pw = "''sesame''" and pws = "[''a'', ''b'', ''c'']"]
  have "Document_unlock ?E ''sesame'' (snd (unlock_attempts ?E [''a'', ''b'', ''c''] secret_doc))
          = Document_unlock ?E ''sesame'' secret_doc"
    by blast
  ultimately show ?thesis
    using unlocked locked accepted opened by (simp add: numeral_3_eq_3 sample_load_def)
qed

text \<open>
  What \<^verbatim>\<open>unlock\<close> does when the engine accepts the password and the trailer has no
  \<open>Root\<close>: the flag is cleared at line 179, before the load step fails at line 181.
\<close>

lemma unlock_no_root:
  "locked s \<Longrightarrow> fz_authenticate_password eng (mdoc s) pw \<Longrightarrow>
   Data_dict eng s ''Root'' = None \<Longrightarrow>
   Document_unlock eng pw s = (False, s\<lparr>locked := False\<rparr>)"
  by (simp add: Document_unlock_def Data_load_no_root)

text \<open>
  Claim C10: a document opened by \<^verbatim>\<open>load\<close> from a state of page count 0 (a new or a
  closed \<^verbatim>\<open>Document\<close>) is locked; the engine accepts the password; the trailer has no
  \<open>Root\<close>. Then \<^verbatim>\<open>unlock\<close> returns false, only the locked flag has changed, and
  afterwards \<^verbatim>\<open>isLocked()\<close> is false and \<^verbatim>\<open>pageCount()\<close> is 0.
\<close>

theorem unlock_without_root_clears_locked:
  assumes "Document_load eng fileName p s0 = (True, p', s)" and "pageCount s0 = 0"
    and "locked s"
    and "fz_authenticate_password eng (mdoc s) pw"
    and "Data_dict eng s ''Root'' = None"
  shows "Document_unlock eng pw s = (False, s\<lparr>locked := False\<rparr>) \<and>
    \<not> Document_isLocked (snd (Document_unlock eng pw s)) \<and>
    Document_pageCount (snd (Document_unlock eng pw s)) = 0"
proof -
  have "pageCount s = 0"
    using load_locked_pageCount [OF assms(1) assms(3)] assms(2) by simp
  then show ?thesis
    using assms(3-5) by (simp add: unlock_no_root Document_isLocked_def Document_pageCount_def)
qed

text \<open>The statement at \<^verbatim>\<open>noroot.pdf\<close>, opened on a new \<^verbatim>\<open>Document\<close>.\<close>

theorem unlock_without_root_clears_locked_witness:
  "sample_load ''noroot.pdf'' = (True, sample_process\<lparr>LC_NUMERIC := ''C''\<rparr>, noroot_doc) \<and>
   locked noroot_doc \<and>
   Document_unlock (sample_engine sample_files) ''sesame'' noroot_doc
     = (False, noroot_doc\<lparr>locked := False\<rparr>) \<and>
   \<not> Document_isLocked (snd (Document_unlock (sample_engine sample_files) ''sesame'' noroot_doc)) \<and>
   Document_pageCount (snd (Document_unlock (sample_engine sample_files) ''sesame'' noroot_doc)) = 0"
proof -
  let ?E = "sample_engine sample_files"
  have opened: "Document_load ?E ''noroot.pdf'' sample_process Data_init
      = (True, sample_process\<lparr>LC_NUMERIC := ''C''\<rparr>, noroot_doc)"
    using sample_load_noroot by (simp add: noroot_doc_def) (simp add: sample_load_def)
  have fresh: "pageCount (Data_init :: (pdf_file, file_bytes, pdf_obj) Data) = 0"
    by (simp add: Data_init_def)
  have locked: "locked noroot_doc"
    by (simp add: sample_docs)
  have accepted: "fz_authenticate_password ?E (mdoc noroot_doc) ''sesame''"
    by (simp add: sample_docs sample_defs)
  have no_root: "Data_dict ?E noroot_doc ''Root'' = None"
    by (simp add: sample_docs sample_defs Data_dict_def)
  show ?thesis
    using unlock_without_root_clears_locked [OF opened fresh locked accepted no_root]
      locked opened
    by (auto simp add: sample_load_def)
qed

section \<open>Queries on a document that is not open\<close>






section \<open>The page mode\<close>

lemma Data_load_mdoc [simp]: "mdoc (snd (Data_load eng s)) = mdoc s"
  by (simp add: Data_load_def Let_def)

text \<open>The chain of comparisons of \<^verbatim>\<open>Data::load\<close> against the table of names.\<close>

lemma Data_load_pageMode:
  "pageMode (snd (Data_load eng s))
     = (case spec_pageMode eng (mdoc s) of None \<Rightarrow> pageMode s | Some m \<Rightarrow> m)"
  by (simp add: Data_load_def spec_pageMode_def Data_dict_def PageMode_names_def Let_def)

lemma load_opened_pageMode:
  assumes "Document_load eng fileName p s0 = (True, p', s)" and "\<not> locked s"
  shows "pageMode s
    = (case spec_pageMode eng (mdoc s) of None \<Rightarrow> pageMode s0 | Some m \<Rightarrow> m)"
proof (cases "fz_open_file eng fileName")
  case None
  with assms show ?thesis
    by (simp add: load_no_stream)
next
  case (Some st)
  show ?thesis
  proof (cases "fz_open_document_with_stream eng (Some st)")
    case fz_throws
    with Some assms show ?thesis
      by (simp add: load_engine_throws)
  next
    case (fz_returns r)
    let ?s3 = "s0\<lparr>stream := Some st, mdoc := r, locked := False\<rparr>"
    from load_engine_returns [OF Some fz_returns, of p s0] assms
    have "s = snd (Data_load eng ?s3)"
      by (auto split: if_splits)
    then show ?thesis
      by (simp add: Data_load_pageMode split: option.splits)
  qed
qed

lemma unlock_pageMode:
  assumes "Document_unlock eng pw s = (True, s')"
  shows "pageMode s'
    = (case spec_pageMode eng (mdoc s) of None \<Rightarrow> pageMode s | Some m \<Rightarrow> m)"
proof -
  from assms have "s' = snd (Data_load eng (s\<lparr>locked := False\<rparr>))"
    by (auto simp: Document_unlock_def split: if_splits prod.splits)
  then show ?thesis
    by (simp add: Data_load_pageMode split: option.splits)
qed

text \<open>
  Claim C9: the page mode of a new \<^verbatim>\<open>Document\<close> is \<open>UseNone\<close>. The load step sets it
  from the name under \<open>PageMode\<close> in the trailer's \<open>Root\<close>: to the enum value of that
  name if it is one of the six, and otherwise (no entry, not a name, another name) it
  leaves the page mode as it was. So a document opened on a new \<^verbatim>\<open>Document\<close> and not
  locked has the page mode its trailer encodes, \<open>UseNone\<close> if it encodes none, and so
  has a document after a successful \<^verbatim>\<open>unlock\<close>, relative to the page mode it had.
\<close>

theorem pageMode_set_by_load_step:
  "pageMode (Data_init :: ('doc, 'strm, 'obj) Data) = UseNone \<and>
   pageMode (snd (Data_load eng s))
     = (case spec_pageMode eng (mdoc s) of None \<Rightarrow> pageMode s | Some m \<Rightarrow> m) \<and>
   (Document_load eng fileName p (Data_init :: ('doc, 'strm, 'obj) Data) = (True, p', s') \<and>
    \<not> locked s' \<longrightarrow>
      Document_pageMode s'
        = (case spec_pageMode eng (mdoc s') of None \<Rightarrow> UseNone | Some m \<Rightarrow> m)) \<and>
   (Document_unlock eng pw s = (True, s'') \<longrightarrow>
      Document_pageMode s''
        = (case spec_pageMode eng (mdoc s) of None \<Rightarrow> pageMode s | Some m \<Rightarrow> m))"
proof (intro conjI impI)
  show "pageMode (Data_init :: ('doc, 'strm, 'obj) Data) = UseNone"
    by (simp add: Data_init_def)
  show "pageMode (snd (Data_load eng s))
     = (case spec_pageMode eng (mdoc s) of None \<Rightarrow> pageMode s | Some m \<Rightarrow> m)"
    by (rule Data_load_pageMode)
next
  assume "Document_load eng fileName p (Data_init :: ('doc, 'strm, 'obj) Data) = (True, p', s')
    \<and> \<not> locked s'"
  then show "Document_pageMode s'
      = (case spec_pageMode eng (mdoc s') of None \<Rightarrow> UseNone | Some m \<Rightarrow> m)"
    using load_opened_pageMode [of eng fileName p Data_init p' s']
    by (simp add: Document_pageMode_def Data_init_def split: option.splits)
next
  assume "Document_unlock eng pw s = (True, s'')"
  then show "Document_pageMode s''
      = (case spec_pageMode eng (mdoc s) of None \<Rightarrow> pageMode s | Some m \<Rightarrow> m)"
    by (simp add: Document_pageMode_def unlock_pageMode)
qed

lemma secret_unlocked:
  "Document_unlock (sample_engine sample_files) ''sesame'' secret_doc
     = (True, secret_doc\<lparr>pageCount := 7, pageMode := FullScreen, locked := False\<rparr>)"
  by (simp add: sample_docs sample_defs Document_unlock_def Data_load_def Data_dict_def)

text \<open>
  The statement at the examples: \<^verbatim>\<open>report.pdf\<close> encodes \<open>UseOutlines\<close>;
  \<^verbatim>\<open>plain.pdf\<close> has the name \<open>TwoColumnLeft\<close>, which is no page mode, and keeps the
  page mode it had; \<^verbatim>\<open>secret.pdf\<close> encodes \<open>FullScreen\<close>, set when it is unlocked.
\<close>

theorem pageMode_set_by_load_step_witness:
  "sample_load ''report.pdf'' = (True, sample_process\<lparr>LC_NUMERIC := ''C''\<rparr>, report_doc) \<and>
   \<not> locked report_doc \<and> Document_pageMode report_doc = UseOutlines \<and>
   sample_load ''plain.pdf'' = (True, sample_process\<lparr>LC_NUMERIC := ''C''\<rparr>, plain_doc) \<and>
   \<not> locked plain_doc \<and> Document_pageMode plain_doc = UseNone \<and>
   fst (Document_unlock (sample_engine sample_files) ''sesame'' secret_doc) \<and>
   Document_pageMode (snd (Document_unlock (sample_engine sample_files) ''sesame'' secret_doc))
     = FullScreen \<and>
   pageMode (snd (Data_load (sample_engine sample_files) (report_doc\<lparr>pageMode := UseThumbs\<rparr>))) = UseOutlines \<and>
   pageMode (snd (Data_load (sample_engine sample_files) (plain_doc\<lparr>pageMode := UseThumbs\<rparr>))) = UseThumbs"
proof -
  let ?E = "sample_engine sample_files"
  let ?p = "sample_process\<lparr>LC_NUMERIC := ''C''\<rparr>"
  let ?u = "secret_doc\<lparr>pageCount := 7, pageMode := FullScreen, locked := False\<rparr>"
  have report: "Document_load ?E ''report.pdf'' sample_process Data_init = (True, ?p, report_doc)"
    "\<not> locked report_doc"
    using sample_load_report by (simp_all add: report_doc_def) (simp add: sample_load_def)
  have plain: "Document_load ?E ''plain.pdf'' sample_process Data_init = (True, ?p, plain_doc)"
    "\<not> locked plain_doc"
    using sample_load_plain by (simp_all add: plain_doc_def) (simp add: sample_load_def)
  have modes: "spec_pageMode ?E (mdoc report_doc) = Some UseOutlines"
    "spec_pageMode ?E (mdoc plain_doc) = None"
    "spec_pageMode ?E (mdoc secret_doc) = Some FullScreen"
    by (simp_all add: sample_docs sample_defs spec_pageMode_def PageMode_names_def)
  have "Document_pageMode report_doc = UseOutlines"
    using pageMode_set_by_load_step
      [of ?E "report_doc\<lparr>pageMode := UseThumbs\<rparr>" "''report.pdf''" sample_process ?p report_doc
        "''sesame''" ?u]
      report modes
    by simp
  moreover have "pageMode (snd (Data_load ?E (report_doc\<lparr>pageMode := UseThumbs\<rparr>))) = UseOutlines"
    using pageMode_set_by_load_step
      [of ?E "report_doc\<lparr>pageMode := UseThumbs\<rparr>" "''report.pdf''" sample_process ?p report_doc
        "''sesame''" ?u]
      modes
    by simp
  moreover have "Document_pageMode plain_doc = UseNone"
    and "pageMode (snd (Data_load ?E (plain_doc\<lparr>pageMode := UseThumbs\<rparr>))) = UseThumbs"
    using pageMode_set_by_load_step
      [of ?E "plain_doc\<lparr>pageMode := UseThumbs\<rparr>" "''plain.pdf''" sample_process ?p plain_doc
        "''sesame''" ?u]
      plain modes
    by simp_all
  moreover have "Document_pageMode ?u = FullScreen"
    using pageMode_set_by_load_step
      [of ?E secret_doc "''secret.pdf''" sample_process ?p secret_doc "''sesame''" ?u]
      secret_unlocked modes
    by simp
  ultimately show ?thesis
    using report plain secret_unlocked by (simp add: sample_load_def)
qed

section \<open>Values of the Info dictionary\<close>

text \<open>
  Claim C7: \<^verbatim>\<open>infoKey(key)\<close> returns a string on every path. With the Info
  dictionary being what \<^verbatim>\<open>loadInfoDict\<close> leaves in \<^verbatim>\<open>d->info\<close> (the cached reference,
  or the trailer's \<open>Info\<close> entry): if the document is not open, if there is no Info
  dictionary or if the dictionary has no entry for the key, the result is the empty
  string and nothing is logged; if the entry exists and, after
  \<^verbatim>\<open>pdf_resolve_indirect\<close>, is not a string, the warning is logged and the result is the
  empty string; if it is a string, the result is the text of the UTF-8 bytes that the
  engine decodes the PDF string to (the empty string should the engine return null).
\<close>

theorem infoKey_degrades_to_empty:
  "(mdoc s = None \<longrightarrow> Document_infoKey eng key p s = ([], p, s)) \<and>
   (mdoc s \<noteq> None \<and> info (Data_loadInfoDict eng s) = None \<longrightarrow>
      Document_infoKey eng key p s = ([], p, Data_loadInfoDict eng s)) \<and>
   (mdoc s \<noteq> None \<and> info (Data_loadInfoDict eng s) \<noteq> None \<and>
    pdf_dict_gets eng (info (Data_loadInfoDict eng s)) key = None \<longrightarrow>
      Document_infoKey eng key p s = ([], p, Data_loadInfoDict eng s)) \<and>
   (mdoc s \<noteq> None \<and> info (Data_loadInfoDict eng s) \<noteq> None \<and>
    pdf_dict_gets eng (info (Data_loadInfoDict eng s)) key = Some obj \<and>
    \<not> pdf_is_string eng (pdf_resolve_indirect eng (Some obj)) \<longrightarrow>
      Document_infoKey eng key p s
        = ([], qWarning ''info object not a string!'' p, Data_loadInfoDict eng s)) \<and>
   (mdoc s \<noteq> None \<and> info (Data_loadInfoDict eng s) \<noteq> None \<and>
    pdf_dict_gets eng (info (Data_loadInfoDict eng s)) key = Some obj \<and>
    pdf_is_string eng (pdf_resolve_indirect eng (Some obj)) \<longrightarrow>
      Document_infoKey eng key p s
        = (case pdf_new_utf8_from_pdf_string_obj eng (pdf_resolve_indirect eng (Some obj)) of
             None \<Rightarrow> [] | Some val \<Rightarrow> QString_fromUtf8 val,
           p, Data_loadInfoDict eng s))"
  by (auto simp add: Document_infoKey_def Let_def split: option.splits)

text \<open>
  The statement at \<^verbatim>\<open>report.pdf\<close>, whose Info dictionary has the integer \<open>Pages\<close>, the
  indirect string \<open>Author\<close> and no \<open>Subject\<close>; at \<^verbatim>\<open>plain.pdf\<close>, which has no Info
  dictionary; and at a new \<^verbatim>\<open>Document\<close>.
\<close>

lemma report_info_cached:
  "Data_loadInfoDict (sample_engine sample_files) report_doc = report_doc\<lparr>info := Some report_info\<rparr>"
  by (simp add: sample_docs Data_loadInfoDict_def Data_dict_def sample_engine_def
      report_pdf_def dict_entries_def)

lemma plain_info_cached:
  "Data_loadInfoDict (sample_engine sample_files) plain_doc = plain_doc"
  by (simp add: sample_docs Data_loadInfoDict_def Data_dict_def sample_engine_def
      plain_pdf_def dict_entries_def)

theorem infoKey_degrades_to_empty_witness:
  "Document_infoKey (sample_engine sample_files) ''Pages'' sample_process report_doc
     = ([], sample_process\<lparr>qWarnings := [''info object not a string!'']\<rparr>,
        report_doc\<lparr>info := Some report_info\<rparr>) \<and>
   Document_infoKey (sample_engine sample_files) ''Author'' sample_process report_doc
     = (''A. Writer'', sample_process, report_doc\<lparr>info := Some report_info\<rparr>) \<and>
   Document_infoKey (sample_engine sample_files) ''Subject'' sample_process report_doc
     = ([], sample_process, report_doc\<lparr>info := Some report_info\<rparr>) \<and>
   Document_infoKey (sample_engine sample_files) ''Title'' sample_process plain_doc
     = ([], sample_process, plain_doc) \<and>
   Document_infoKey (sample_engine sample_files) ''Title'' sample_process Data_init
     = ([], sample_process, Data_init)"
proof -
  let ?E = "sample_engine sample_files"
  let ?r = "report_doc\<lparr>info := Some report_info\<rparr>"
  have opened: "mdoc report_doc \<noteq> None" "mdoc plain_doc \<noteq> None"
    "mdoc (Data_init :: (pdf_file, file_bytes, pdf_obj) Data) = None"
    by (simp_all add: sample_docs Data_init_def)
  have entries:
    "pdf_dict_gets ?E (Some report_info) ''Pages'' = Some (pdf_int 3)"
    "pdf_dict_gets ?E (Some report_info) ''Author'' = Some (pdf_ref (pdf_str ''A. Writer''))"
    "pdf_dict_gets ?E (Some report_info) ''Subject'' = None"
    by (simp_all add: sample_defs)
  have typed:
    "\<not> pdf_is_string ?E (pdf_resolve_indirect ?E (Some (pdf_int 3)))"
    "pdf_is_string ?E (pdf_resolve_indirect ?E (Some (pdf_ref (pdf_str ''A. Writer''))))"
    "pdf_new_utf8_from_pdf_string_obj ?E (pdf_resolve_indirect ?E (Some (pdf_ref (pdf_str ''A. Writer''))))
       = Some ''A. Writer''"
    by (simp_all add: sample_defs)
  have "Document_infoKey ?E ''Pages'' sample_process report_doc
      = ([], qWarning ''info object not a string!'' sample_process, ?r)"
    using infoKey_degrades_to_empty [of report_doc ?E "''Pages''" sample_process "pdf_int 3"]
      opened entries typed
    by (simp add: report_info_cached)
  moreover have "Document_infoKey ?E ''Author'' sample_process report_doc
      = (''A. Writer'', sample_process, ?r)"
    using infoKey_degrades_to_empty
      [of report_doc ?E "''Author''" sample_process "pdf_ref (pdf_str ''A. Writer'')"]
      opened entries typed
    by (simp add: report_info_cached QString_fromUtf8_def)
  moreover have "Document_infoKey ?E ''Subject'' sample_process report_doc
      = ([], sample_process, ?r)"
    using infoKey_degrades_to_empty [of report_doc ?E "''Subject''" sample_process "pdf_int 3"]
      opened entries
    by (simp add: report_info_cached)
  moreover have "Document_infoKey ?E ''Title'' sample_process plain_doc
      = ([], sample_process, plain_doc)"
    using infoKey_degrades_to_empty [of plain_doc ?E "''Title''" sample_process "pdf_int 3"]
      opened
    by (simp add: plain_info_cached) (simp add: sample_docs)
  moreover have "Document_infoKey ?E ''Title'' sample_process Data_init
      = ([], sample_process, Data_init)"
    using infoKey_degrades_to_empty [of Data_init ?E "''Title''" sample_process "pdf_int 3"]
      opened
    by simp
  ultimately show ?thesis
    by (simp add: qWarning_def sample_process_def)
qed

section \<open>The outline\<close>

text \<open>A tree owned from \<open>lo\<close> on is owned from any lower address on.\<close>

lemma owned_tree_weaken:
  "owned_tree lo h p t \<Longrightarrow> lo' \<le> lo \<Longrightarrow> owned_tree lo' h p t"
proof (induction rule: owned_tree.induct)
  case (owned_treeI lo p h t)
  have "list_all2 (owned_tree lo' h) (m_children (h ! p)) (node_children t)"
    using owned_treeI.IH owned_treeI.prems by (auto elim!: list_all2_mono)
  with owned_treeI show ?case
    by (auto intro: owned_tree.intros)
qed

text \<open>
  A tree stays what it is when the store grows and the objects from \<open>lo\<close> on are left
  as they were.
\<close>

lemma owned_tree_frame:
  "owned_tree lo h p t \<Longrightarrow> length h \<le> length h' \<Longrightarrow>
   (\<And>q. lo \<le> q \<Longrightarrow> q < length h \<Longrightarrow> h' ! q = h ! q) \<Longrightarrow> owned_tree lo h' p t"
proof (induction rule: owned_tree.induct)
  case (owned_treeI lo p h t)
  have same: "h' ! p = h ! p"
    using owned_treeI by simp
  have "list_all2 (owned_tree lo h') (m_children (h ! p)) (node_children t)"
    using owned_treeI.IH owned_treeI.prems by (auto elim!: list_all2_mono)
  with owned_treeI same show ?case
    by (auto intro!: owned_tree.intros)
qed

text \<open>An address is the root of at most one tree.\<close>

lemma owned_tree_unique:
  "owned_tree lo h p t \<Longrightarrow> owned_tree lo' h p t' \<Longrightarrow> t = t'"
proof (induction arbitrary: t' lo' rule: owned_tree.induct)
  case (owned_treeI lo p h t)
  from owned_treeI.prems have t': "m_title (h ! p) = node_title t'" "m_link (h ! p) = node_link t'"
    "list_all2 (owned_tree lo' h) (m_children (h ! p)) (node_children t')"
    by (auto elim: owned_tree.cases)
  have "node_children t = node_children t'"
  proof (rule nth_equalityI)
    show len: "length (node_children t) = length (node_children t')"
      using owned_treeI.IH t'(3) by (auto dest!: list_all2_lengthD)
    fix i assume "i < length (node_children t)"
    with owned_treeI.IH have i: "i < length (m_children (h ! p))"
      by (auto dest!: list_all2_lengthD)
    with owned_treeI.IH
    have "\<forall>x lo'. owned_tree lo' h (m_children (h ! p) ! i) x \<longrightarrow> node_children t ! i = x"
      by (simp add: list_all2_conv_all_nth)
    moreover from i t'(3)
    have "owned_tree lo' h (m_children (h ! p) ! i) (node_children t' ! i)"
      by (simp add: list_all2_conv_all_nth)
    ultimately show "node_children t ! i = node_children t' ! i"
      by blast
  qed
  with owned_treeI t' show ?case
    by (simp add: OutlineNode.expand)
qed

text \<open>\<^verbatim>\<open>appendChild\<close> writes no title and no link.\<close>

lemma labels_appendChild:
  "item < length h \<Longrightarrow> labels (Outline_appendChild item c h) = labels h"
  by (auto simp: labels_def Outline_appendChild_def nth_list_update intro!: nth_equalityI)

text \<open>
  What one call of \<^verbatim>\<open>convertOutline\<close> does to the store, for a parent \<open>item\<close> that is
  allocated: the store only grows; no object allocated before the call is written but the
  parent; the parent gets new children at the end of its list, one for each sibling of
  the engine's list and in that order, each the root of the mirror of that sibling, built
  of objects allocated during the call; and the objects are allocated in depth-first
  order.
\<close>

lemma convertOutline_inv:
  "item < length h \<Longrightarrow>
   \<exists>cs. length h \<le> length (Data_convertOutline out item h) \<and>
     (\<forall>q < length h. q \<noteq> item \<longrightarrow> Data_convertOutline out item h ! q = h ! q) \<and>
     Data_convertOutline out item h ! item
       = (h ! item)\<lparr>m_children := m_children (h ! item) @ cs\<rparr> \<and>
     list_all2 (owned_tree (length h) (Data_convertOutline out item h)) cs (spec_mirror out) \<and>
     labels (Data_convertOutline out item h) = labels h @ concat (map preorder (spec_mirror out))"
proof (induction out item h rule: Data_convertOutline.induct)
  case (1 item h)
  then show ?case by simp
next
  case (2 out item h)
  define child where "child = length h"
  define h1 where "h1 = h @ [Outline_of out]"
  define h2 where "h2 = Outline_appendChild item child h1"
  define h3 where "h3 = Data_convertOutline (down out) child h2"
  define h4 where "h4 = Data_convertOutline (nxt out) item h3"
  note defs = child_def h1_def h2_def h3_def h4_def
  have res: "Data_convertOutline (Some out) item h = h4"
    by (simp add: defs Let_def)
  have len2: "length h2 = Suc (length h)"
    by (simp add: h2_def h1_def Outline_appendChild_def)
  have item2: "h2 ! item = (h ! item)\<lparr>m_children := m_children (h ! item) @ [child]\<rparr>"
    using "2.prems" by (simp add: h2_def h1_def Outline_appendChild_def nth_append)
  have child2: "h2 ! child = Outline_of out"
    using "2.prems" by (simp add: h2_def h1_def Outline_appendChild_def child_def)
  have old2: "\<And>q. q < length h \<Longrightarrow> q \<noteq> item \<Longrightarrow> h2 ! q = h ! q"
    by (simp add: h2_def h1_def Outline_appendChild_def nth_append)
  have lab2: "labels h2 = labels h @ [(m_title (Outline_of out), m_link (Outline_of out))]"
    using "2.prems" by (simp add: h2_def h1_def labels_appendChild) (simp add: labels_def)
  have "child < length h2"
    by (simp add: len2 child_def)
  from "2.IH"(1)[OF child_def h1_def h2_def this]
  obtain cs1 where
    len3: "length h2 \<le> length h3" and
    old3: "\<And>q. q < length h2 \<Longrightarrow> q \<noteq> child \<Longrightarrow> h3 ! q = h2 ! q" and
    child3: "h3 ! child = (h2 ! child)\<lparr>m_children := m_children (h2 ! child) @ cs1\<rparr>" and
    trees3: "list_all2 (owned_tree (length h2) h3) cs1 (spec_mirror (down out))" and
    lab3: "labels h3 = labels h2 @ concat (map preorder (spec_mirror (down out)))"
    unfolding h3_def by blast
  have "item < length h3"
    using "2.prems" len2 len3 by simp
  from "2.IH"(2)[OF child_def h1_def h2_def h3_def this]
  obtain cs2 where
    len4: "length h3 \<le> length h4" and
    old4: "\<And>q. q < length h3 \<Longrightarrow> q \<noteq> item \<Longrightarrow> h4 ! q = h3 ! q" and
    item4: "h4 ! item = (h3 ! item)\<lparr>m_children := m_children (h3 ! item) @ cs2\<rparr>" and
    trees4: "list_all2 (owned_tree (length h3) h4) cs2 (spec_mirror (nxt out))" and
    lab4: "labels h4 = labels h3 @ concat (map preorder (spec_mirror (nxt out)))"
    unfolding h4_def by blast
  let ?node = "OutlineNode (case title out of None \<Rightarrow> [] | Some t \<Rightarrow> QString_fromUtf8 t)
                 (case uri out of None \<Rightarrow> [] | Some u \<Rightarrow> u) (spec_mirror (down out))"
  have ne: "item \<noteq> child"
    using "2.prems" by (simp add: child_def)
  have tree_child3: "owned_tree (length h) h3 child ?node"
  proof (rule owned_treeI)
    show "length h \<le> child" by (simp add: child_def)
    show "child < length h3" using len2 len3 by (simp add: child_def)
    show "m_title (h3 ! child) = node_title ?node"
      by (simp add: child3 child2 Outline_of_def)
    show "m_link (h3 ! child) = node_link ?node"
      by (simp add: child3 child2 Outline_of_def)
    have "m_children (h3 ! child) = cs1"
      by (simp add: child3 child2 Outline_of_def)
    moreover have "list_all2 (owned_tree (length h) h3) cs1 (spec_mirror (down out))"
      using trees3 by (rule list_all2_mono) (simp add: owned_tree_weaken len2)
    ultimately show "list_all2 (owned_tree (length h) h3) (m_children (h3 ! child)) (node_children ?node)"
      by simp
  qed
  have tree_child4: "owned_tree (length h) h4 child ?node"
    using tree_child3 len4
  proof (rule owned_tree_frame)
    fix q assume "length h \<le> q" "q < length h3"
    with "2.prems" show "h4 ! q = h3 ! q"
      by (intro old4) auto
  qed
  have trees: "list_all2 (owned_tree (length h) h4) (child # cs2) (spec_mirror (Some out))"
  proof -
    have "list_all2 (owned_tree (length h) h4) cs2 (spec_mirror (nxt out))"
      using trees4 by (rule list_all2_mono) (use len2 len3 in \<open>simp add: owned_tree_weaken\<close>)
    with tree_child4 show ?thesis by simp
  qed
  have item3: "h3 ! item = h2 ! item"
    using "2.prems" ne len2 by (intro old3) auto
  have item: "h4 ! item = (h ! item)\<lparr>m_children := m_children (h ! item) @ child # cs2\<rparr>"
    by (simp add: item4 item3 item2)
  have old: "\<forall>q < length h. q \<noteq> item \<longrightarrow> h4 ! q = h ! q"
  proof (intro allI impI)
    fix q assume q: "q < length h" "q \<noteq> item"
    then have "h4 ! q = h3 ! q" using len2 len3 by (intro old4) auto
    also have "\<dots> = h2 ! q" using q len2 by (intro old3) (auto simp: child_def)
    also have "\<dots> = h ! q" using q by (rule old2)
    finally show "h4 ! q = h ! q" .
  qed
  have lab: "labels h4 = labels h @ concat (map preorder (spec_mirror (Some out)))"
    by (simp add: lab4 lab3 lab2 Outline_of_def)
  have "length h \<le> length h4"
    using len2 len3 len4 by simp
  with old item trees lab show ?case
    unfolding res by blast
qed

text \<open>
  Claim C6: if the engine reports no outline, \<^verbatim>\<open>outline()\<close> returns null and
  allocates nothing. Otherwise it returns the address of a new object, and no object that
  existed before is written; the new object is the root of a tree of objects allocated by
  the call; the root has no title and no link, and its children are the specification's
  mirror of the engine's list: one node for each sibling, in list order, with the
  sibling's title and link where it has them, over the mirror of the sibling's nested
  list. The objects were allocated in depth-first order: each sibling's nested list was
  converted before the next sibling.
\<close>

theorem outline_mirrors_engine:
  "(fz_load_outline eng (mdoc s) = None \<longrightarrow> Document_outline eng s h = (None, h)) \<and>
   (fz_load_outline eng (mdoc s) = Some out \<longrightarrow>
      fst (Document_outline eng s h) = Some (length h) \<and>
      take (length h) (snd (Document_outline eng s h)) = h \<and>
      owned_tree (length h) (snd (Document_outline eng s h)) (length h)
        (OutlineNode [] [] (spec_mirror (Some out))) \<and>
      labels (drop (length h) (snd (Document_outline eng s h)))
        = preorder (OutlineNode [] [] (spec_mirror (Some out))))"
proof (intro conjI impI)
  assume "fz_load_outline eng (mdoc s) = None"
  then show "Document_outline eng s h = (None, h)"
    by (simp add: Document_outline_def)
next
  assume out: "fz_load_outline eng (mdoc s) = Some out"
  define root where "root = length h"
  define h1 where "h1 = h @ [Outline_default]"
  define h' where "h' = Data_convertOutline (Some out) root h1"
  have res: "Document_outline eng s h = (Some root, h')"
    using out by (simp add: Document_outline_def root_def h1_def h'_def Let_def)
  have "root < length h1"
    by (simp add: root_def h1_def)
  from convertOutline_inv [OF this, of "Some out"]
  obtain cs where
    len: "length h1 \<le> length h'" and
    old: "\<And>q. q < length h1 \<Longrightarrow> q \<noteq> root \<Longrightarrow> h' ! q = h1 ! q" and
    item: "h' ! root = (h1 ! root)\<lparr>m_children := m_children (h1 ! root) @ cs\<rparr>" and
    trees: "list_all2 (owned_tree (length h1) h') cs (spec_mirror (Some out))" and
    lab: "labels h' = labels h1 @ concat (map preorder (spec_mirror (Some out)))"
    unfolding h'_def by blast
  have root1: "h1 ! root = Outline_default"
    by (simp add: h1_def root_def)
  show "fst (Document_outline eng s h) = Some (length h)"
    by (simp add: res root_def)
  show "take (length h) (snd (Document_outline eng s h)) = h"
  proof (rule nth_equalityI)
    show "length (take (length h) (snd (Document_outline eng s h))) = length h"
      using len by (simp add: res h1_def)
    fix q assume "q < length (take (length h) (snd (Document_outline eng s h)))"
    then have q: "q < length h" by simp
    then have "h' ! q = h1 ! q"
      by (intro old) (simp_all add: h1_def root_def)
    with q show "take (length h) (snd (Document_outline eng s h)) ! q = h ! q"
      by (simp add: res h1_def nth_append)
  qed
  show "owned_tree (length h) (snd (Document_outline eng s h)) (length h)
        (OutlineNode [] [] (spec_mirror (Some out)))"
    unfolding res snd_conv root_def [symmetric]
  proof (rule owned_treeI)
    show "root \<le> root" by simp
    show "root < length h'" using len by (simp add: h1_def root_def)
    show "m_title (h' ! root) = node_title (OutlineNode [] [] (spec_mirror (Some out)))"
      by (simp add: item root1 Outline_default_def)
    show "m_link (h' ! root) = node_link (OutlineNode [] [] (spec_mirror (Some out)))"
      by (simp add: item root1 Outline_default_def)
    have "list_all2 (owned_tree root h') cs (spec_mirror (Some out))"
      using trees by (rule list_all2_mono) (simp add: owned_tree_weaken h1_def root_def)
    then show "list_all2 (owned_tree root h') (m_children (h' ! root))
        (node_children (OutlineNode [] [] (spec_mirror (Some out))))"
      by (simp add: item root1 Outline_default_def)
  qed
  have "labels h1 = labels h @ [([], [])]"
    by (simp add: h1_def labels_def Outline_default_def)
  with lab have "labels h' = labels h @ ([], []) # concat (map preorder (spec_mirror (Some out)))"
    by (simp del: spec_mirror.simps)
  moreover have "labels (drop (length h) h') = drop (length h) (labels h')"
    by (simp add: labels_def drop_map)
  moreover have "length (labels h) = length h"
    by (simp add: labels_def)
  ultimately have "labels (drop (length h) h')
      = ([], []) # concat (map preorder (spec_mirror (Some out)))"
    by (simp del: spec_mirror.simps)
  then show "labels (drop (length h) (snd (Document_outline eng s h)))
        = preorder (OutlineNode [] [] (spec_mirror (Some out)))"
    by (simp add: res del: spec_mirror.simps)
qed

text \<open>
  The statement at \<^verbatim>\<open>report.pdf\<close>, whose outline is "Chapter 1" over "Section 1.1",
  then an untitled entry, and at \<^verbatim>\<open>plain.pdf\<close>, which has no outline.
\<close>

lemma report_outline:
  "Document_outline (sample_engine sample_files) report_doc []
     = (Some 0,
        [\<lparr>m_title = [], m_link = [], m_children = [1, 3]\<rparr>,
         \<lparr>m_title = ''Chapter 1'', m_link = ''#page=1'', m_children = [2]\<rparr>,
         \<lparr>m_title = ''Section 1.1'', m_link = [], m_children = []\<rparr>,
         \<lparr>m_title = [], m_link = ''#page=3'', m_children = []\<rparr>])"
  by (simp add: sample_docs sample_engine_def report_pdf_def report_toc_def
      Document_outline_def Outline_default_def Outline_of_def Outline_appendChild_def
      QString_fromUtf8_def Let_def)

lemma report_mirror:
  "spec_mirror (Some report_toc)
     = [OutlineNode ''Chapter 1'' ''#page=1'' [OutlineNode ''Section 1.1'' [] []],
        OutlineNode [] ''#page=3'' []]"
  by (simp add: report_toc_def QString_fromUtf8_def)

theorem outline_mirrors_engine_witness:
  "fst (Document_outline (sample_engine sample_files) report_doc []) = Some 0 \<and>
   owned_tree 0
     [\<lparr>m_title = [], m_link = [], m_children = [1, 3]\<rparr>,
      \<lparr>m_title = ''Chapter 1'', m_link = ''#page=1'', m_children = [2]\<rparr>,
      \<lparr>m_title = ''Section 1.1'', m_link = [], m_children = []\<rparr>,
      \<lparr>m_title = [], m_link = ''#page=3'', m_children = []\<rparr>]
     0
     (OutlineNode [] []
        [OutlineNode ''Chapter 1'' ''#page=1'' [OutlineNode ''Section 1.1'' [] []],
         OutlineNode [] ''#page=3'' []]) \<and>
   labels (snd (Document_outline (sample_engine sample_files) report_doc []))
     = [([], []), (''Chapter 1'', ''#page=1''), (''Section 1.1'', []), ([], ''#page=3'')] \<and>
   Document_outline (sample_engine sample_files) plain_doc [] = (None, [])"
proof -
  let ?E = "sample_engine sample_files"
  have engine: "fz_load_outline ?E (mdoc report_doc) = Some report_toc"
    "fz_load_outline ?E (mdoc plain_doc) = None"
    by (simp_all add: sample_docs sample_engine_def report_pdf_def plain_pdf_def)
  from outline_mirrors_engine
    [where eng = ?E and s = report_doc and out = report_toc and h = "[]"] engine(1)
  have "fst (Document_outline ?E report_doc []) = Some 0"
    and "owned_tree 0 (snd (Document_outline ?E report_doc [])) 0
           (OutlineNode [] [] (spec_mirror (Some report_toc)))"
    and "labels (snd (Document_outline ?E report_doc []))
           = preorder (OutlineNode [] [] (spec_mirror (Some report_toc)))"
    by (simp_all del: spec_mirror.simps)
  moreover
  from outline_mirrors_engine
    [where eng = ?E and s = plain_doc and out = report_toc and h = "[]"] engine(2)
  have "Document_outline ?E plain_doc [] = (None, [])"
    by simp
  ultimately show ?thesis
    by (simp add: report_outline report_mirror del: spec_mirror.simps)
qed

end
